theory Spec2Isabelle
  imports Complex_Main "HOL-Library.AList"
begin

section \<open>Values shared by the services\<close>

text \<open>
  Python floats are modelled by exact reals together with the one special value the
  code and pandas test for, NaN (the missing-value marker of a pandas Series).
  Rounding error of binary floating point and the infinities are outside the model.
\<close>

datatype pyfloat = Num real | NaN

text \<open>Exceptions that the modelled functions raise or let through.\<close>

datatype exn =
    ValueError string    \<comment> \<open>raised by the services themselves and by \<open>min\<close> of an empty sequence\<close>
  | KeyError string      \<comment> \<open>a missing column\<close>
  | IndexError string    \<comment> \<open>a position outside a column\<close>
  | TypeError string     \<comment> \<open>float arithmetic on a column of time stamps\<close>
  | Upstream string      \<comment> \<open>any exception thrown inside the yfinance provider\<close>

text \<open>Truthiness of an optional float: \<open>None\<close> and zero are falsy, NaN is truthy.\<close>

fun truthy :: "pyfloat option \<Rightarrow> bool" where
  "truthy None = False"
| "truthy (Some (Num x)) = (x \<noteq> 0)"
| "truthy (Some NaN) = True"

text \<open>Comparisons of a float with a constant; every comparison with NaN is false.\<close>

fun fl_less :: "pyfloat \<Rightarrow> real \<Rightarrow> bool" where
  "fl_less (Num x) c = (x < c)"
| "fl_less NaN c = False"

fun fl_greater :: "pyfloat \<Rightarrow> real \<Rightarrow> bool" where
  "fl_greater (Num x) c = (x > c)"
| "fl_greater NaN c = False"

fun fl_between :: "real \<Rightarrow> pyfloat \<Rightarrow> real \<Rightarrow> bool" where
  "fl_between lo (Num x) hi = (lo \<le> x \<and> x \<le> hi)"
| "fl_between lo NaN hi = False"

section \<open>TTL cache (\<open>utils/cache.py\<close>)\<close>

text \<open>
  \<open>_store\<close> is a Python dict from keys to pairs \<open>(insertion time, value)\<close>. A dict iterates in
  insertion order, and \<open>min\<close> returns the first minimal item of that order, so the store is an
  association list: assigning to a present key keeps its place, assigning to a new key appends
  (\<open>AList.update\<close>), and \<open>pop\<close> removes the key (\<open>AList.delete\<close>). Readings of the clock
  \<open>time()\<close> are passed in as reals.
\<close>

record 'v TTLCache =
  ttl :: int
  maxsize :: int
  store :: "(string \<times> real \<times> 'v) list"

definition TTLCache_init :: "int \<Rightarrow> int \<Rightarrow> 'v TTLCache" where
  "TTLCache_init ttl_seconds msize = \<lparr>ttl = ttl_seconds, maxsize = msize, store = []\<rparr>"

text \<open>\<open>get\<close>: the value, or \<open>None\<close>; an expired entry is removed on the way.\<close>

definition TTLCache_get :: "'v TTLCache \<Rightarrow> real \<Rightarrow> string \<Rightarrow> 'v option \<times> 'v TTLCache" where
  "TTLCache_get c now key =
     (case map_of (store c) key of
        None \<Rightarrow> (None, c)
      | Some (tstamp, val) \<Rightarrow>
          if now - tstamp > real_of_int (ttl c)
          then (None, c\<lparr>store := AList.delete key (store c)\<rparr>)
          else (Some val, c))"

text \<open>
  \<open>min(self._store.items(), key=lambda kv: kv[1][0])\<close>: a later item replaces the running
  minimum only when its insertion time is strictly smaller.
\<close>

fun min_by_time :: "(string \<times> real \<times> 'v) \<Rightarrow> (string \<times> real \<times> 'v) list \<Rightarrow> (string \<times> real \<times> 'v)" where
  "min_by_time best [] = best"
| "min_by_time best (kv # rest) =
     min_by_time (if fst (snd kv) < fst (snd best) then kv else best) rest"

definition oldest_key :: "(string \<times> real \<times> 'v) list \<Rightarrow> exn + string" where
  "oldest_key items =
     (case items of
        [] \<Rightarrow> Inl (ValueError ''min() arg is an empty sequence'')
      | kv # rest \<Rightarrow> Inr (fst (min_by_time kv rest)))"

text \<open>\<open>set\<close>: the eviction test looks at the size of the store only, then the key is assigned.\<close>

definition TTLCache_set :: "'v TTLCache \<Rightarrow> real \<Rightarrow> string \<Rightarrow> 'v \<Rightarrow> exn + 'v TTLCache" where
  "TTLCache_set c now key val =
     (if int (length (store c)) \<ge> maxsize c
      then (case oldest_key (store c) of
              Inl e \<Rightarrow> Inl e
            | Inr k \<Rightarrow> Inr (c\<lparr>store := AList.update key (now, val) (AList.delete k (store c))\<rparr>))
      else Inr (c\<lparr>store := AList.update key (now, val) (store c)\<rparr>))"

section \<open>Strings\<close>

text \<open>
  Symbols, periods and column names are ASCII. \<open>str.strip\<close> removes the ASCII whitespace of
  \<open>str.isspace\<close> (codes 9 to 13, 28 to 32) at both ends, \<open>str.upper\<close> and \<open>str.title\<close>
  change the case of the letters a to z.
\<close>

definition is_space :: "char \<Rightarrow> bool" where
  "is_space c = (let n = (of_char c :: nat) in (9 \<le> n \<and> n \<le> 13) \<or> (28 \<le> n \<and> n \<le> 32))"

definition is_lower :: "char \<Rightarrow> bool" where
  "is_lower c = (let n = (of_char c :: nat) in 97 \<le> n \<and> n \<le> 122)"

definition is_upper :: "char \<Rightarrow> bool" where
  "is_upper c = (let n = (of_char c :: nat) in 65 \<le> n \<and> n \<le> 90)"

definition to_upper :: "char \<Rightarrow> char" where
  "to_upper c = (if is_lower c then char_of (of_char c - (32 :: nat)) else c)"

definition to_lower :: "char \<Rightarrow> char" where
  "to_lower c = (if is_upper c then char_of (of_char c + (32 :: nat)) else c)"

definition strip :: "string \<Rightarrow> string" where
  "strip s = rev (dropWhile is_space (rev (dropWhile is_space s)))"

definition upper :: "string \<Rightarrow> string" where
  "upper s = map to_upper s"

text \<open>\<open>str.title\<close>: a letter that follows a letter is lower-cased, any other letter upper-cased.\<close>

fun title_from :: "bool \<Rightarrow> string \<Rightarrow> string" where
  "title_from prev [] = []"
| "title_from prev (c # cs) =
     (if is_lower c then (if prev then c else to_upper c) # title_from True cs
      else if is_upper c then (if prev then to_lower c else c) # title_from True cs
      else c # title_from False cs)"

definition title :: "string \<Rightarrow> string" where
  "title s = title_from False s"

text \<open>\<open>sep.join(xs)\<close>.\<close>

fun join :: "string \<Rightarrow> string list \<Rightarrow> string" where
  "join sep [] = []"
| "join sep [x] = x"
| "join sep (x # y # ys) = x @ sep @ join sep (y # ys)"

text \<open>\<open>(symbol or '').strip().upper()\<close>; on a string, \<open>symbol or ''\<close> is the string itself.\<close>

definition normalize_symbol :: "string \<Rightarrow> string" where
  "normalize_symbol symbol = upper (strip symbol)"

text \<open>\<open>[symbol] if '.' in symbol else [symbol, f"{symbol}.NS", f"{symbol}.BO"]\<close>.\<close>

definition candidates_of :: "string \<Rightarrow> string list" where
  "candidates_of symbol =
     (if CHR ''.'' \<in> set symbol then [symbol] else [symbol, symbol @ ''.NS'', symbol @ ''.BO''])"

section \<open>Data frames\<close>

text \<open>
  A pandas frame: a number of rows, an index that is either a named column of time stamps
  (as yfinance returns it; its index is always named) or the default range index, and the
  named columns in order.
\<close>

datatype column = Stamps "string list" | Floats "pyfloat list" | Ints "int list"

record frame =
  nrows :: nat
  index :: "(string \<times> string list) option"
  columns :: "(string \<times> column) list"

text \<open>\<open>pd.DataFrame()\<close>.\<close>

definition empty_frame :: frame where
  "empty_frame = \<lparr>nrows = 0, index = None, columns = []\<rparr>"

text \<open>\<open>df.empty\<close>: no rows or no columns.\<close>

definition is_empty :: "frame \<Rightarrow> bool" where
  "is_empty df = (nrows df = 0 \<or> columns df = [])"

text \<open>\<open>df.rename(columns=f)\<close>.\<close>

definition rename_columns :: "(string \<Rightarrow> string) \<Rightarrow> frame \<Rightarrow> frame" where
  "rename_columns f df = df\<lparr>columns := map (\<lambda>(c, v). (f c, v)) (columns df)\<rparr>"

text \<open>
  \<open>df.reset_index()\<close> inserts the index as the first column and leaves the range index. A
  range index is inserted as \<open>index\<close>, or as \<open>level_0\<close> when that name is taken; a name
  that is already a column is refused.
\<close>

definition reset_index :: "frame \<Rightarrow> exn + frame" where
  "reset_index df =
     (let names = map fst (columns df);
          (name, col) =
            (case index df of
               Some (n, ts) \<Rightarrow> (n, Stamps ts)
             | None \<Rightarrow> (if ''index'' \<in> set names then ''level_0'' else ''index'',
                        Ints (map int [0..<nrows df])))
      in if name \<in> set names
         then Inl (ValueError (''cannot insert '' @ name @ '', already exists''))
         else Inr (df\<lparr>index := None, columns := (name, col) # columns df\<rparr>))"

section \<open>Symbol and request resolver (\<open>services/market.py\<close>, \<open>fetch_history\<close>)\<close>

text \<open>
  The upstream provider: \<open>yf.Ticker(symbol).history(period=..., interval=..., actions=False)\<close>
  raises (\<open>Inl\<close>), returns \<open>None\<close>, or returns a frame.
\<close>

type_synonym history_api = "string \<Rightarrow> string \<Rightarrow> string \<Rightarrow> exn + frame option"

definition fetch_hist_once :: "history_api \<Rightarrow> string \<Rightarrow> string \<Rightarrow> string \<Rightarrow> exn + frame" where
  "fetch_hist_once api symbol period interval =
     (case api symbol period interval of
        Inl e \<Rightarrow> Inl e
      | Inr None \<Rightarrow> Inr empty_frame
      | Inr (Some df) \<Rightarrow>
          if is_empty df then Inr empty_frame
          else (case reset_index (rename_columns title df) of
                  Inl e \<Rightarrow> Inl e
                | Inr df' \<Rightarrow> Inr (rename_columns (\<lambda>c. if c = ''Date'' then ''date'' else c) df')))"

text \<open>
  The state the resolver works on: the module-level cache and, for the record, the calls
  made to the provider so far.
\<close>

record world =
  cache :: "frame TTLCache"
  calls :: "(string \<times> string \<times> string) list"

text \<open>\<open>cache = TTLCache(ttl_seconds=300)\<close>, with the default \<open>maxsize=128\<close>.\<close>

definition initial_world :: world where
  "initial_world = \<lparr>cache = TTLCache_init 300 128, calls = []\<rparr>"

definition combos_of :: "string \<Rightarrow> string \<Rightarrow> (string \<times> string) list" where
  "combos_of period interval =
     [(period, interval), (''6mo'', ''1d''), (''3mo'', ''1d''), (''1mo'', ''1d''),
      (''1y'', ''1wk''), (''max'', ''1wk'')]"

text \<open>\<open>f"{cand}({p},{iv})"\<close>.\<close>

definition attempt_label :: "string \<Rightarrow> string \<Rightarrow> string \<Rightarrow> string" where
  "attempt_label cand p iv = cand @ ''('' @ p @ '','' @ iv @ '')''"

text \<open>
  The inner loop over the combos of one candidate and the outer loop over the candidates.
  Each carries \<open>tried\<close> and the log of calls. The result is an exception that left the
  loop, \<open>Some\<close> frame at the \<open>return\<close>, or \<open>None\<close> when the loop ran to its end.
\<close>

fun try_combos ::
  "history_api \<Rightarrow> string \<Rightarrow> (string \<times> string) list \<Rightarrow> string list \<Rightarrow> (string \<times> string \<times> string) list
   \<Rightarrow> (exn + frame option) \<times> string list \<times> (string \<times> string \<times> string) list" where
  "try_combos api cand [] tried trace = (Inr None, tried, trace)"
| "try_combos api cand ((p, iv) # rest) tried trace =
     (let tried' = tried @ [attempt_label cand p iv];
          trace' = trace @ [(cand, p, iv)]
      in case fetch_hist_once api cand p iv of
           Inl e \<Rightarrow> (Inl e, tried', trace')
         | Inr df \<Rightarrow>
             if \<not> is_empty df then (Inr (Some df), tried', trace')
             else try_combos api cand rest tried' trace')"

fun try_candidates ::
  "history_api \<Rightarrow> string list \<Rightarrow> (string \<times> string) list \<Rightarrow> string list \<Rightarrow> (string \<times> string \<times> string) list
   \<Rightarrow> (exn + frame option) \<times> string list \<times> (string \<times> string \<times> string) list" where
  "try_candidates api [] combos tried trace = (Inr None, tried, trace)"
| "try_candidates api (cand # cands) combos tried trace =
     (case try_combos api cand combos tried trace of
        (Inr None, tried', trace') \<Rightarrow> try_candidates api cands combos tried' trace'
      | r \<Rightarrow> r)"

definition history_key :: "string \<Rightarrow> string \<Rightarrow> string \<Rightarrow> string" where
  "history_key symbol period interval = ''hist:'' @ symbol @ '':'' @ period @ '':'' @ interval"

definition not_found_message :: "string \<Rightarrow> string list \<Rightarrow> string" where
  "not_found_message symbol tried =
     ''No price history found for symbol: '' @ symbol @ ''. Tried: '' @ join '', '' tried"

text \<open>
  \<open>fetch_history\<close>. \<open>t_get\<close> and \<open>t_set\<close> are the readings of the clock inside \<open>cache.get\<close>
  and \<open>cache.set\<close>.
\<close>

definition fetch_history ::
  "history_api \<Rightarrow> real \<Rightarrow> real \<Rightarrow> world \<Rightarrow> string \<Rightarrow> string \<Rightarrow> string \<Rightarrow> (exn + frame) \<times> world" where
  "fetch_history api t_get t_set w symbol0 period interval =
     (let symbol = normalize_symbol symbol0;
          key = history_key symbol period interval;
          (cached, c1) = TTLCache_get (cache w) t_get key
      in case cached of
           Some df \<Rightarrow> (Inr df, w\<lparr>cache := c1\<rparr>)
         | None \<Rightarrow>
             (case try_candidates api (candidates_of symbol) (combos_of period interval) [] (calls w) of
                (Inl e, tried, trace) \<Rightarrow> (Inl e, w\<lparr>cache := c1, calls := trace\<rparr>)
              | (Inr (Some df), tried, trace) \<Rightarrow>
                  (case TTLCache_set c1 t_set key df of
                     Inl e \<Rightarrow> (Inl e, w\<lparr>cache := c1, calls := trace\<rparr>)
                   | Inr c2 \<Rightarrow> (Inr df, w\<lparr>cache := c2, calls := trace\<rparr>))
              | (Inr None, tried, trace) \<Rightarrow>
                  (Inl (ValueError (not_found_message symbol tried)), w\<lparr>cache := c1, calls := trace\<rparr>)))"

section \<open>Float arithmetic\<close>

text \<open>NaN propagates through every operation.\<close>

fun fl_map :: "(real \<Rightarrow> real) \<Rightarrow> pyfloat \<Rightarrow> pyfloat" where
  "fl_map f (Num x) = Num (f x)"
| "fl_map f NaN = NaN"

fun fl_map2 :: "(real \<Rightarrow> real \<Rightarrow> real) \<Rightarrow> pyfloat \<Rightarrow> pyfloat \<Rightarrow> pyfloat" where
  "fl_map2 f (Num x) (Num y) = Num (f x y)"
| "fl_map2 f _ _ = NaN"

definition fl_sub :: "pyfloat \<Rightarrow> pyfloat \<Rightarrow> pyfloat" where
  "fl_sub = fl_map2 (\<lambda>x y. x - y)"

text \<open>
  Division is only reached with a divisor that is not zero: the quote fetcher tests the
  previous close first, and \<open>rsi\<close> replaces a zero loss by NaN and divides by \<open>1 + rs\<close>.
\<close>

definition fl_div :: "pyfloat \<Rightarrow> pyfloat \<Rightarrow> pyfloat" where
  "fl_div = fl_map2 (\<lambda>x y. x / y)"

text \<open>Rounding to the nearest integer, ties to the even one, and to \<open>n\<close> decimal places.\<close>

definition rint :: "real \<Rightarrow> int" where
  "rint y =
     (let f = \<lfloor>y\<rfloor>; d = y - of_int f
      in if d < 1 / 2 then f else if d > 1 / 2 then f + 1 else if even f then f else f + 1)"

definition fl_round :: "nat \<Rightarrow> pyfloat \<Rightarrow> pyfloat" where
  "fl_round n = fl_map (\<lambda>x. of_int (rint (x * 10 ^ n)) / 10 ^ n)"

section \<open>Indicator engine (\<open>services/indicators.py\<close>)\<close>

type_synonym series = "pyfloat list"

text \<open>\<open>Series.dropna()\<close>.\<close>

definition dropna :: "series \<Rightarrow> series" where
  "dropna xs = filter (\<lambda>x. x \<noteq> NaN) xs"

text \<open>\<open>a - b\<close> and \<open>a / b\<close> of two series over the same index.\<close>

definition series_sub :: "series \<Rightarrow> series \<Rightarrow> series" where
  "series_sub xs ys = map2 fl_sub xs ys"

definition series_div :: "series \<Rightarrow> series \<Rightarrow> series" where
  "series_div xs ys = map2 fl_div xs ys"

text \<open>\<open>Series.diff()\<close>: the first entry is undefined.\<close>

definition diff :: "series \<Rightarrow> series" where
  "diff xs = (case xs of [] \<Rightarrow> [] | _ # rest \<Rightarrow> NaN # map2 fl_sub rest xs)"

text \<open>
  \<open>Series.rolling(window=w).mean()\<close>, where \<open>min_periods\<close> defaults to the window: the
  entry at \<open>i\<close> is the mean of the last \<open>w\<close> values up to \<open>i\<close> when there are \<open>w\<close> of them
  and none is NaN, and undefined otherwise.
\<close>

definition window_mean :: "nat \<Rightarrow> series \<Rightarrow> pyfloat" where
  "window_mean w win =
     (let obs = concat (map (\<lambda>x. case x of Num v \<Rightarrow> [v] | NaN \<Rightarrow> []) win)
      in if 0 < w \<and> w \<le> length obs then Num (sum_list obs / real (length obs)) else NaN)"

definition rolling_mean :: "nat \<Rightarrow> series \<Rightarrow> series" where
  "rolling_mean w xs = map (\<lambda>i. window_mean w (drop (Suc i - w) (take (Suc i) xs))) [0..<length xs]"

text \<open>
  \<open>Series.ewm(alpha, adjust=False).mean()\<close>, with pandas' defaults \<open>min_periods=0\<close> and
  \<open>ignore_na=False\<close>. \<open>weighted\<close> is the running average and \<open>old_wt\<close> the weight it
  carries; on a series without NaN this is
  \<open>y\<^sub>0 = x\<^sub>0\<close>, \<open>y\<^sub>i = (1 - \<alpha>) y\<^sub>i\<^sub>-\<^sub>1 + \<alpha> x\<^sub>i\<close>. A NaN input repeats the running average and ages
  its weight; leading NaN stay NaN.
\<close>

fun ewm_loop :: "real \<Rightarrow> pyfloat \<Rightarrow> real \<Rightarrow> series \<Rightarrow> series" where
  "ewm_loop \<alpha> weighted old_wt [] = []"
| "ewm_loop \<alpha> NaN old_wt (cur # rest) = cur # ewm_loop \<alpha> cur old_wt rest"
| "ewm_loop \<alpha> (Num w) old_wt (NaN # rest) = Num w # ewm_loop \<alpha> (Num w) (old_wt * (1 - \<alpha>)) rest"
| "ewm_loop \<alpha> (Num w) old_wt (Num c # rest) =
     (let old = old_wt * (1 - \<alpha>);
          w' = (if w \<noteq> c then (old * w + \<alpha> * c) / (old + \<alpha>) else w)
      in Num w' # ewm_loop \<alpha> (Num w') 1 rest)"

definition ewm_mean :: "real \<Rightarrow> series \<Rightarrow> series" where
  "ewm_mean \<alpha> xs = (case xs of [] \<Rightarrow> [] | x # rest \<Rightarrow> x # ewm_loop \<alpha> x 1 rest)"

text \<open>\<open>ema\<close>; pandas refuses a span below 1.\<close>

definition ema :: "series \<Rightarrow> int \<Rightarrow> exn + series" where
  "ema xs span_arg =
     (if span_arg < 1 then Inl (ValueError ''span must satisfy: span >= 1'')
      else Inr (ewm_mean (2 / (real_of_int span_arg + 1)) xs))"

definition clip_lower0 :: "series \<Rightarrow> series" where
  "clip_lower0 xs = map (fl_map (\<lambda>x. max x 0)) xs"

definition neg_clip_upper0 :: "series \<Rightarrow> series" where
  "neg_clip_upper0 xs = map (fl_map (\<lambda>x. - min x 0)) xs"

text \<open>\<open>loss.replace(0, np.nan)\<close>.\<close>

definition replace0_nan :: "series \<Rightarrow> series" where
  "replace0_nan xs = map (\<lambda>x. if x = Num 0 then NaN else x) xs"

definition rsi :: "series \<Rightarrow> nat \<Rightarrow> series" where
  "rsi close period =
     (let delta = diff close;
          gain = rolling_mean period (clip_lower0 delta);
          loss = rolling_mean period (neg_clip_upper0 delta);
          rs = series_div gain (replace0_nan loss)
      in map (fl_map (\<lambda>r. 100 - 100 / (1 + r))) rs)"

definition macd :: "series \<Rightarrow> int \<Rightarrow> int \<Rightarrow> int \<Rightarrow> exn + series \<times> series \<times> series" where
  "macd close fast slow sig =
     (case ema close fast of
        Inl e \<Rightarrow> Inl e
      | Inr ema_fast \<Rightarrow>
          (case ema close slow of
             Inl e \<Rightarrow> Inl e
           | Inr ema_slow \<Rightarrow>
               (let macd_line = series_sub ema_fast ema_slow
                in case ema macd_line sig of
                     Inl e \<Rightarrow> Inl e
                   | Inr signal_line \<Rightarrow> Inr (macd_line, signal_line, series_sub macd_line signal_line))))"

text \<open>\<open>float(s.iloc[-1]) if s.size else None\<close>.\<close>

definition latest :: "series \<Rightarrow> pyfloat option" where
  "latest xs = (if xs = [] then None else Some (last xs))"

text \<open>
  \<open>df['Close'] if 'Close' in df else df['close']\<close>, read as a float series. The arithmetic
  of the indicators is not defined on a column of time stamps.
\<close>

definition column_series :: "column \<Rightarrow> exn + series" where
  "column_series col =
     (case col of
        Floats xs \<Rightarrow> Inr xs
      | Ints ns \<Rightarrow> Inr (map (\<lambda>n. Num (real_of_int n)) ns)
      | Stamps ts \<Rightarrow> Inl (TypeError ''unsupported operand type''))"

definition get_column :: "frame \<Rightarrow> string \<Rightarrow> exn + column" where
  "get_column df name =
     (case map_of (columns df) name of None \<Rightarrow> Inl (KeyError name) | Some col \<Rightarrow> Inr col)"

definition close_of :: "frame \<Rightarrow> exn + series" where
  "close_of df =
     (case get_column df (if ''Close'' \<in> set (map fst (columns df)) then ''Close'' else ''close'') of
        Inl e \<Rightarrow> Inl e
      | Inr col \<Rightarrow> column_series col)"

text \<open>
  The \<open>rsi\<close> and \<open>macd\<close> entries of the result of \<open>compute_all_indicators\<close>. Its
  \<open>moving_averages\<close> and \<open>bollinger_bands\<close> entries are further rolling statistics of the
  same series, which nothing below reads.
\<close>

record indicators =
  rsi_series :: series
  rsi_latest :: "pyfloat option"
  macd_line :: series
  macd_signal :: series
  macd_hist :: series
  macd_hist_latest :: "pyfloat option"

definition indicators_of_close :: "series \<Rightarrow> exn + indicators" where
  "indicators_of_close close =
     (let r = map (fl_round 2) (rsi close 14)
      in case macd close 12 26 9 of
           Inl e \<Rightarrow> Inl e
         | Inr (m_line, m_sig, m_hist) \<Rightarrow>
             (let r_clean = dropna r
              in Inr \<lparr>rsi_series = r_clean,
                      rsi_latest = latest r_clean,
                      macd_line = dropna m_line,
                      macd_signal = dropna m_sig,
                      macd_hist = dropna m_hist,
                      macd_hist_latest = latest (dropna m_hist)\<rparr>))"

definition compute_all_indicators :: "frame \<Rightarrow> exn + indicators" where
  "compute_all_indicators df =
     (case close_of df of Inl e \<Rightarrow> Inl e | Inr close \<Rightarrow> indicators_of_close close)"

text \<open>\<open>technicals\<close>: the indicators of the resolved history.\<close>

definition technicals ::
  "history_api \<Rightarrow> real \<Rightarrow> real \<Rightarrow> world \<Rightarrow> string \<Rightarrow> string \<Rightarrow> string \<Rightarrow> (exn + indicators) \<times> world" where
  "technicals api t_get t_set w symbol period interval =
     (case fetch_history api t_get t_set w symbol period interval of
        (Inl e, w') \<Rightarrow> (Inl e, w')
      | (Inr df, w') \<Rightarrow> (compute_all_indicators df, w'))"

section \<open>Summary scorer (\<open>services/market.py\<close>, \<open>rule_based_summary\<close>)\<close>

text \<open>
  The result of \<open>fundamentals\<close>: the six keys picked from the info mapping, \<open>None\<close> for
  a key that is absent. The scorer works on the results of \<open>technicals(symbol)\<close> and
  \<open>fundamentals(symbol)\<close>.
\<close>

record fundamentals =
  trailingPe :: "pyfloat option"
  forwardPe :: "pyfloat option"
  returnOnEquity :: "pyfloat option"
  debtToEquity :: "pyfloat option"
  marketCap :: "pyfloat option"
  epsTrailingTwelveMonths :: "pyfloat option"

record summary =
  score :: int
  signal :: string
  reasons :: "string list"
  summary_technicals :: indicators
  summary_fundamentals :: fundamentals

text \<open>The running pair \<open>(score, reasons)\<close>; each rule adds to the score and appends a reason.\<close>

definition bump :: "int \<Rightarrow> string \<Rightarrow> int \<times> string list \<Rightarrow> int \<times> string list" where
  "bump d r acc = (fst acc + d, snd acc @ [r])"

definition rule_rsi :: "pyfloat option \<Rightarrow> int \<times> string list \<Rightarrow> int \<times> string list" where
  "rule_rsi r acc =
     (case r of
        None \<Rightarrow> acc
      | Some v \<Rightarrow>
          if fl_between 45 v 60 then bump 1 ''RSI in neutral-to-positive zone'' acc
          else if fl_less v 35 then bump (- 1) ''RSI indicates oversold (bearish risk)'' acc
          else if fl_greater v 70 then bump (- 1) ''RSI indicates overbought (pullback risk)'' acc
          else acc)"

definition rule_macd :: "pyfloat option \<Rightarrow> int \<times> string list \<Rightarrow> int \<times> string list" where
  "rule_macd h acc =
     (case h of
        None \<Rightarrow> acc
      | Some v \<Rightarrow> if fl_greater v 0 then bump 1 ''MACD histogram positive (bullish momentum)'' acc else acc)"

definition rule_pe :: "pyfloat option \<Rightarrow> int \<times> string list \<Rightarrow> int \<times> string list" where
  "rule_pe pe acc =
     (case pe of
        None \<Rightarrow> acc
      | Some v \<Rightarrow>
          if truthy (Some v) \<and> fl_greater v 0 \<and> fl_less v 35
          then bump 1 ''Reasonable P/E valuation'' acc else acc)"

definition rule_roe :: "pyfloat option \<Rightarrow> int \<times> string list \<Rightarrow> int \<times> string list" where
  "rule_roe roe acc =
     (case roe of
        None \<Rightarrow> acc
      | Some v \<Rightarrow>
          if truthy (Some v) \<and> fl_greater v (12 / 100)
          then bump 1 ''Healthy ROE (>12%)'' acc else acc)"

definition rule_de :: "pyfloat option \<Rightarrow> int \<times> string list \<Rightarrow> int \<times> string list" where
  "rule_de de acc =
     (case de of
        None \<Rightarrow> acc
      | Some v \<Rightarrow> if fl_less v 100 then bump 1 ''Manageable debt (D/E < 100)'' acc else acc)"

definition signal_of :: "int \<Rightarrow> string" where
  "signal_of s =
     (if s \<ge> 4 then ''Strong Buy''
      else if s = 3 then ''Buy''
      else if s = 2 then ''Hold''
      else if s = 1 then ''Weak Hold''
      else ''Sell'')"

definition rule_based_summary :: "indicators \<Rightarrow> fundamentals \<Rightarrow> summary" where
  "rule_based_summary ind f =
     (let acc = rule_de (debtToEquity f)
                  (rule_roe (returnOnEquity f)
                    (rule_pe (trailingPe f)
                      (rule_macd (macd_hist_latest ind)
                        (rule_rsi (rsi_latest ind) (0, [])))))
      in \<lparr>score = fst acc, signal = signal_of (fst acc), reasons = snd acc,
          summary_technicals = ind, summary_fundamentals = f\<rparr>)"

section \<open>Batch quote fetcher (\<open>services/market.py\<close>, \<open>fetch_quotes\<close>)\<close>

text \<open>
  The fields of \<open>fast_info\<close> that the fetcher reads; \<open>None\<close> is a key without a value.
  Prices and the market capitalisation are floats, the currency is a string.
\<close>

record fast_info =
  fi_last_price :: "pyfloat option"
  fi_lastPrice :: "pyfloat option"
  fi_last_trade :: "pyfloat option"
  fi_regularMarketPrice :: "pyfloat option"
  fi_previous_close :: "pyfloat option"
  fi_previousClose :: "pyfloat option"
  fi_regularMarketPreviousClose :: "pyfloat option"
  fi_currency :: "string option"
  fi_market_cap :: "pyfloat option"
  fi_marketCap :: "pyfloat option"

text \<open>
  What the provider gives for one candidate: \<open>yf.Ticker(c)\<close> may raise; so may reading
  \<open>t.fast_info\<close> (which may also be falsy, \<open>None\<close> here) and
  \<open>t.history(period="5d", interval="1d", actions=False)\<close>.
\<close>

record ticker =
  tk_fast_info :: "exn + fast_info option"
  tk_history :: "exn + frame option"

type_synonym quotes_api = "string \<Rightarrow> exn + ticker"

record quote =
  symbol :: string
  price :: "pyfloat option"
  currency :: "string option"
  previous_close :: "pyfloat option"
  change :: "pyfloat option"
  change_pct :: "pyfloat option"
  market_cap :: "int option"
  ts :: int

definition blank_quote :: "string \<Rightarrow> int \<Rightarrow> quote" where
  "blank_quote sy now =
     \<lparr>symbol = sy, price = None, currency = None, previous_close = None, change = None,
      change_pct = None, market_cap = None, ts = now\<rparr>"

text \<open>\<open>x or y\<close> on optional floats, and \<open>(t.fast_info or {}).get(key)\<close>.\<close>

definition py_or :: "pyfloat option \<Rightarrow> pyfloat option \<Rightarrow> pyfloat option" where
  "py_or x y = (if truthy x then x else y)"

definition fi_get :: "fast_info option \<Rightarrow> (fast_info \<Rightarrow> 'a option) \<Rightarrow> 'a option" where
  "fi_get fi field = (case fi of None \<Rightarrow> None | Some d \<Rightarrow> field d)"

text \<open>\<open>int(x)\<close> truncates towards zero and refuses NaN.\<close>

definition py_int :: "pyfloat \<Rightarrow> exn + int" where
  "py_int x =
     (case x of
        NaN \<Rightarrow> Inl (ValueError ''cannot convert float NaN to integer'')
      | Num v \<Rightarrow> Inr (if v \<ge> 0 then \<lfloor>v\<rfloor> else \<lceil>v\<rceil>))"

text \<open>\<open>float(col.iloc[-k])\<close> for \<open>k\<close> = 1, 2.\<close>

definition iloc_back :: "series \<Rightarrow> nat \<Rightarrow> exn + pyfloat" where
  "iloc_back xs k =
     (if 0 < k \<and> k \<le> length xs then Inr (xs ! (length xs - k))
      else Inl (IndexError ''single positional indexer is out-of-bounds''))"

text \<open>
  The fallback on the short history: the last close as price, the one before as previous
  close (\<open>None\<close> when the frame has a single row).
\<close>

definition history_fallback :: "frame \<Rightarrow> exn + pyfloat option \<times> pyfloat option" where
  "history_fallback h =
     (case get_column h ''Close'' of
        Inl e \<Rightarrow> Inl e
      | Inr col \<Rightarrow>
          (case column_series col of
             Inl e \<Rightarrow> Inl e
           | Inr closes \<Rightarrow>
               (case iloc_back closes 1 of
                  Inl e \<Rightarrow> Inl e
                | Inr p \<Rightarrow>
                    if nrows h > 1
                    then (case iloc_back closes 2 of Inl e \<Rightarrow> Inl e | Inr q \<Rightarrow> Inr (Some p, Some q))
                    else Inr (Some p, None))))"

text \<open>Lines 218 to 231: the item is filled from what was found for this candidate.\<close>

definition fill_quote ::
  "quote \<Rightarrow> pyfloat option \<Rightarrow> pyfloat option \<Rightarrow> string option \<Rightarrow> pyfloat option \<Rightarrow> quote" where
  "fill_quote item0 price_v prev_v curr_v mcap_v =
     (let item1 = (if price_v \<noteq> None then item0\<lparr>price := price_v\<rparr> else item0);
          item2 = (if prev_v \<noteq> None then item1\<lparr>previous_close := prev_v\<rparr> else item1);
          item3 =
            (case (price item2, previous_close item2) of
               (Some p, Some q) \<Rightarrow>
                 if truthy (Some q)
                 then (let ch = fl_round 4 (fl_sub p q)
                       in item2\<lparr>change := Some ch,
                                change_pct := Some (fl_round 3 (fl_div (fl_map (\<lambda>x. 100 * x) ch) q))\<rparr>)
                 else item2
             | _ \<Rightarrow> item2);
          item4 = (case curr_v of Some cs \<Rightarrow> if cs \<noteq> [] then item3\<lparr>currency := Some cs\<rparr> else item3
                   | None \<Rightarrow> item3)
      in case mcap_v of
           None \<Rightarrow> item4
         | Some m \<Rightarrow>
             if truthy (Some m)
             then (case py_int m of Inl e \<Rightarrow> item4 | Inr n \<Rightarrow> item4\<lparr>market_cap := Some n\<rparr>)
             else item4)"

text \<open>
  The body of the \<open>try\<close> for one candidate. With the typed fields above, everything that
  can raise comes before the first assignment to the item, so an exception leaves the
  item as it was.
\<close>

definition quote_attempt :: "quotes_api \<Rightarrow> string \<Rightarrow> quote \<Rightarrow> exn + quote" where
  "quote_attempt api c item0 =
     (case api c of
        Inl e \<Rightarrow> Inl e
      | Inr t \<Rightarrow>
          (case tk_fast_info t of
             Inl e \<Rightarrow> Inl e
           | Inr fi \<Rightarrow>
               (let price_v = py_or (py_or (py_or (fi_get fi fi_last_price) (fi_get fi fi_lastPrice))
                                       (fi_get fi fi_last_trade)) (fi_get fi fi_regularMarketPrice);
                    prev_v = py_or (py_or (fi_get fi fi_previous_close) (fi_get fi fi_previousClose))
                               (fi_get fi fi_regularMarketPreviousClose);
                    curr_v = fi_get fi fi_currency;
                    mcap_v = py_or (fi_get fi fi_market_cap) (fi_get fi fi_marketCap)
                in if \<not> truthy price_v
                   then (case tk_history t of
                           Inl e \<Rightarrow> Inl e
                         | Inr None \<Rightarrow> Inr (fill_quote item0 price_v prev_v curr_v mcap_v)
                         | Inr (Some h) \<Rightarrow>
                             if is_empty h then Inr (fill_quote item0 price_v prev_v curr_v mcap_v)
                             else (case history_fallback h of
                                     Inl e \<Rightarrow> Inl e
                                   | Inr (p, q) \<Rightarrow> Inr (fill_quote item0 p q curr_v mcap_v)))
                   else Inr (fill_quote item0 price_v prev_v curr_v mcap_v))))"

text \<open>The loop over the candidates: \<open>continue\<close> on an exception, \<open>break\<close> otherwise.\<close>

fun quote_candidates :: "quotes_api \<Rightarrow> string list \<Rightarrow> quote \<Rightarrow> quote" where
  "quote_candidates api [] item0 = item0"
| "quote_candidates api (c # cs) item0 =
     (case quote_attempt api c item0 of
        Inl e \<Rightarrow> quote_candidates api cs item0
      | Inr item1 \<Rightarrow> item1)"

definition quote_for :: "quotes_api \<Rightarrow> int \<Rightarrow> string \<Rightarrow> quote" where
  "quote_for api now sy = quote_candidates api (candidates_of sy) (blank_quote sy now)"

text \<open>The generator \<open>_chunks\<close>, as the list of the chunks it yields.\<close>

fun chunks_from :: "int \<Rightarrow> string list \<Rightarrow> string list \<Rightarrow> string list list" where
  "chunks_from size_arg buf [] = (if buf \<noteq> [] then [buf] else [])"
| "chunks_from size_arg buf (s # seq) =
     (if int (length (buf @ [s])) \<ge> size_arg
      then (buf @ [s]) # chunks_from size_arg [] seq
      else chunks_from size_arg (buf @ [s]) seq)"

definition chunks :: "string list \<Rightarrow> int \<Rightarrow> string list list" where
  "chunks seq size_arg = chunks_from size_arg [] seq"

text \<open>
  \<open>fetch_quotes\<close>: the quotes in order, and the pauses made, one after each chunk, in
  seconds. \<open>now\<close> is \<open>int(time.time())\<close>.
\<close>

definition fetch_quotes :: "quotes_api \<Rightarrow> int \<Rightarrow> string list \<Rightarrow> int \<Rightarrow> int \<Rightarrow> quote list \<times> real list" where
  "fetch_quotes api now symbols chunk_size sleep_ms =
     (let syms = map normalize_symbol (filter (\<lambda>s. s \<noteq> []) symbols);
          batches = chunks syms chunk_size
      in (concat (map (map (quote_for api now)) batches),
          map (\<lambda>batch. real_of_int (max 0 sleep_ms) / 1000) batches))"

section \<open>The cache\<close>

lemma min_by_time_mem: "min_by_time best rest \<in> set (best # rest)"
  by (induction rest arbitrary: best) auto

lemma min_by_time_le_best: "fst (snd (min_by_time best rest)) \<le> fst (snd best)"
proof (induction rest arbitrary: best)
  case Nil
  show ?case by simp
next
  case (Cons kv rest)
  show ?case
    using Cons.IH [of kv] Cons.IH [of best] by (auto simp: less_imp_le dest: order_trans)
qed

lemma min_by_time_least:
  "kv \<in> set (best # rest) \<Longrightarrow> fst (snd (min_by_time best rest)) \<le> fst (snd kv)"
proof (induction rest arbitrary: best)
  case Nil
  then show ?case by simp
next
  case (Cons x rest)
  let ?b = "if fst (snd x) < fst (snd best) then x else best"
  consider "kv = best" | "kv = x" | "kv \<in> set rest" using Cons.prems by auto
  then show ?case
  proof cases
    case 1
    then show ?thesis using min_by_time_le_best [of ?b rest] by (auto split: if_splits)
  next
    case 2
    then show ?thesis using min_by_time_le_best [of ?b rest] by (auto split: if_splits)
  next
    case 3
    then show ?thesis using Cons.IH [of ?b] by simp
  qed
qed

lemma oldest_key_Inr:
  assumes "oldest_key items = Inr k"
  shows "\<exists>t v. (k, t, v) \<in> set items \<and> (\<forall>kv \<in> set items. t \<le> fst (snd kv))"
proof (cases items)
  case Nil
  with assms show ?thesis by (simp add: oldest_key_def)
next
  case (Cons kv rest)
  let ?m = "min_by_time kv rest"
  from assms Cons have k: "k = fst ?m" by (simp add: oldest_key_def)
  have "?m \<in> set items" using min_by_time_mem [of kv rest] Cons by simp
  moreover have "\<forall>x \<in> set items. fst (snd ?m) \<le> fst (snd x)"
    using min_by_time_least [of _ kv rest] Cons by blast
  ultimately show ?thesis using k
    by (metis prod.collapse)
qed

text \<open>
  Claim C2, as the code has it. \<open>TTLCache.set\<close> leaves the key bound to the fresh insertion
  time and the value. Below capacity no other key changes. At capacity (the store holds
  \<open>maxsize\<close> entries or more) an entry with the least insertion time is evicted first,
  whether the key being set is new or already present, and no key other than that one and
  the key being set changes.
\<close>

theorem TTLCache_set_evicts_by_size:
  assumes "TTLCache_set c now key val = Inr c'"
  shows "map_of (store c') key = Some (now, val)
     \<and> (int (length (store c)) < maxsize c \<longrightarrow>
          (\<forall>k. k \<noteq> key \<longrightarrow> map_of (store c') k = map_of (store c) k))
     \<and> (int (length (store c)) \<ge> maxsize c \<longrightarrow>
          (\<exists>ko t v. (ko, t, v) \<in> set (store c)
             \<and> (\<forall>kv \<in> set (store c). t \<le> fst (snd kv))
             \<and> (ko \<noteq> key \<longrightarrow> map_of (store c') ko = None)
             \<and> (\<forall>k. k \<noteq> key \<and> k \<noteq> ko \<longrightarrow> map_of (store c') k = map_of (store c) k)))"
proof (cases "int (length (store c)) \<ge> maxsize c")
  case False
  with assms have "store c' = AList.update key (now, val) (store c)"
    by (auto simp: TTLCache_set_def)
  then show ?thesis using False by (simp add: update_conv')
next
  case True
  with assms obtain ko where ko: "oldest_key (store c) = Inr ko"
    and st: "store c' = AList.update key (now, val) (AList.delete ko (store c))"
    by (auto simp: TTLCache_set_def split: sum.splits)
  from oldest_key_Inr [OF ko] obtain t v where
    tv: "(ko, t, v) \<in> set (store c)" "\<forall>kv \<in> set (store c). t \<le> fst (snd kv)" by blast
  have bound: "map_of (store c') key = Some (now, val)" using st by (simp add: update_conv')
  moreover have "ko \<noteq> key \<longrightarrow> map_of (store c') ko = None"
    using st by (simp add: update_conv' delete_conv')
  moreover have "\<forall>k. k \<noteq> key \<and> k \<noteq> ko \<longrightarrow> map_of (store c') k = map_of (store c) k"
    using st by (simp add: update_conv' delete_conv')
  ultimately have "\<exists>ko t v. (ko, t, v) \<in> set (store c)
             \<and> (\<forall>kv \<in> set (store c). t \<le> fst (snd kv))
             \<and> (ko \<noteq> key \<longrightarrow> map_of (store c') ko = None)
             \<and> (\<forall>k. k \<noteq> key \<and> k \<noteq> ko \<longrightarrow> map_of (store c') k = map_of (store c) k)"
    using tv by (intro exI [of _ ko] exI [of _ t] exI [of _ v]) simp
  then show ?thesis using True bound by simp
qed

text \<open>The theorem at a full store of two entries, where the key \<open>b\<close> is already present.\<close>

theorem TTLCache_set_evicts_by_size_witness:
  "map_of (store \<lparr>ttl = 300, maxsize = 2, store = [(''b'', 3, Num 30)]\<rparr>) ''b'' = Some (3, Num 30)"
proof -
  have h: "TTLCache_set \<lparr>ttl = 300, maxsize = 2, store = [(''a'', 1, Num 10), (''b'', 2, Num 20)]\<rparr>
             3 ''b'' (Num 30)
           = Inr \<lparr>ttl = 300, maxsize = 2, store = [(''b'', 3, Num 30)]\<rparr>"
    by (simp add: TTLCache_set_def oldest_key_def)
  from TTLCache_set_evicts_by_size [OF h] show ?thesis by (rule conjunct1)
qed

text \<open>
  Claim C2 as stated fails: in a store at capacity, setting the key \<open>b\<close>, which is present,
  removes the other entry \<open>a\<close>.
\<close>

theorem TTLCache_set_present_key_evicts_other:
  "TTLCache_set \<lparr>ttl = 300, maxsize = 2, store = [(''a'', 1, Num 10), (''b'', 2, Num 20)]\<rparr>
     3 ''b'' (Num 30)
   = Inr \<lparr>ttl = 300, maxsize = 2, store = [(''b'', 3, Num 30)]\<rparr>"
  by (simp add: TTLCache_set_def oldest_key_def)

section \<open>The summary scorer\<close>

text \<open>
  Claim C3, as the code has it. For RSI 50, MACD histogram 0.5, P/E 20, ROE 0.15 and
  D/E 50, all five rules of the table fire: the score is 5, the signal is Strong Buy, and
  the reasons are the five of the table in its order.
\<close>

theorem summary_example_score_is_five:
  "rule_based_summary
     \<lparr>rsi_series = rs, rsi_latest = Some (Num 50), macd_line = ml, macd_signal = ms,
      macd_hist = mh, macd_hist_latest = Some (Num (1 / 2))\<rparr>
     \<lparr>trailingPe = Some (Num 20), forwardPe = None, returnOnEquity = Some (Num (15 / 100)),
      debtToEquity = Some (Num 50), marketCap = None, epsTrailingTwelveMonths = None\<rparr>
   = \<lparr>score = 5, signal = ''Strong Buy'',
      reasons = [''RSI in neutral-to-positive zone'',
                 ''MACD histogram positive (bullish momentum)'',
                 ''Reasonable P/E valuation'',
                 ''Healthy ROE (>12%)'',
                 ''Manageable debt (D/E < 100)''],
      summary_technicals =
        \<lparr>rsi_series = rs, rsi_latest = Some (Num 50), macd_line = ml, macd_signal = ms,
         macd_hist = mh, macd_hist_latest = Some (Num (1 / 2))\<rparr>,
      summary_fundamentals =
        \<lparr>trailingPe = Some (Num 20), forwardPe = None, returnOnEquity = Some (Num (15 / 100)),
         debtToEquity = Some (Num 50), marketCap = None, epsTrailingTwelveMonths = None\<rparr>\<rparr>"
  by (simp add: rule_based_summary_def rule_rsi_def rule_macd_def rule_pe_def rule_roe_def
      rule_de_def bump_def signal_of_def)

text \<open>Claim C3 as stated fails: on that input the score is not 4 and there are not 4 reasons.\<close>

theorem summary_example_not_four:
  "score (rule_based_summary
     \<lparr>rsi_series = [], rsi_latest = Some (Num 50), macd_line = [], macd_signal = [],
      macd_hist = [], macd_hist_latest = Some (Num (1 / 2))\<rparr>
     \<lparr>trailingPe = Some (Num 20), forwardPe = None, returnOnEquity = Some (Num (15 / 100)),
      debtToEquity = Some (Num 50), marketCap = None, epsTrailingTwelveMonths = None\<rparr>) \<noteq> 4
   \<and> length (reasons (rule_based_summary
     \<lparr>rsi_series = [], rsi_latest = Some (Num 50), macd_line = [], macd_signal = [],
      macd_hist = [], macd_hist_latest = Some (Num (1 / 2))\<rparr>
     \<lparr>trailingPe = Some (Num 20), forwardPe = None, returnOnEquity = Some (Num (15 / 100)),
      debtToEquity = Some (Num 50), marketCap = None, epsTrailingTwelveMonths = None\<rparr>)) \<noteq> 4"
  by (simp add: rule_based_summary_def rule_rsi_def rule_macd_def rule_pe_def rule_roe_def
      rule_de_def bump_def signal_of_def)

section \<open>The indicator engine\<close>

text \<open>
  Claim C7. \<open>ema\<close> of the series 10, 20, 30 with span 2 is 10, 50/3, 230/9, which is
  10, 16.67, 25.56 within 0.01 at each point.
\<close>

theorem ema_example:
  "\<exists>a b c. ema [Num 10, Num 20, Num 30] 2 = Inr [Num a, Num b, Num c]
     \<and> \<bar>a - 10\<bar> \<le> 1 / 100 \<and> \<bar>b - 1667 / 100\<bar> \<le> 1 / 100 \<and> \<bar>c - 2556 / 100\<bar> \<le> 1 / 100"
proof -
  have "ema [Num 10, Num 20, Num 30] 2 = Inr [Num 10, Num (50 / 3), Num (230 / 9)]"
    by (simp add: ema_def ewm_mean_def Let_def)
  moreover have "\<bar>(10::real) - 10\<bar> \<le> 1 / 100" "\<bar>(50 / 3 :: real) - 1667 / 100\<bar> \<le> 1 / 100"
    "\<bar>(230 / 9 :: real) - 2556 / 100\<bar> \<le> 1 / 100"
    by simp_all
  ultimately show ?thesis by blast
qed

end
